theory Spec2Isabelle
  imports Main "HOL-Library.Sublist"
begin

section \<open>JavaScript values as logger.ts uses them\<close>

text \<open>
  Strings are \<^typ>\<open>string\<close>. Numbers are \<^typ>\<open>int\<close>: every number logger.ts handles
  is a line, a column, a count or an enum ordinal. An optional property (\<open>field?: T\<close>)
  or a value that may be \<open>undefined\<close> or \<open>null\<close> is a \<^typ>\<open>'a option\<close>.

  Record fields carry a short prefix for their interface (\<open>nd_\<close> for NormalizedDiagnostic,
  \<open>rt_\<close> for DiagnosticToRuntime, \<open>lm_\<close> for a lint message, ...), since the interfaces
  of the source share field names (\<open>message\<close>, \<open>level\<close>, \<open>loc\<close>, \<open>start\<close>, ...) and some
  of them (\<open>id\<close>, \<open>length\<close>, \<open>end\<close>) are taken in HOL.
\<close>

subsection \<open>Number to string\<close>

text \<open>The decimal digit of a number below ten.\<close>

definition digit_char :: "nat \<Rightarrow> char" where
  "digit_char n = ''0123456789'' ! n"

fun nat_digits :: "nat \<Rightarrow> string" where
  "nat_digits n = (if n < 10 then [digit_char n] else nat_digits (n div 10) @ [digit_char (n mod 10)])"

declare nat_digits.simps [simp del]

text \<open>
  \<open>Number::toString\<close> on an integer: the decimal digits, with a minus sign below zero
  (the form JavaScript prints for every integer of magnitude below \<open>10^21\<close>).
\<close>

definition Number_toString :: "int \<Rightarrow> string" where
  "Number_toString n = (if n < 0 then CHR ''-'' # nat_digits (nat (- n)) else nat_digits (nat n))"

text \<open>String conversion of a value that may be \<open>undefined\<close>, as \<open>+\<close> and a template do it.\<close>

definition String_of :: "string option \<Rightarrow> string" where
  "String_of v = (case v of None \<Rightarrow> ''undefined'' | Some s \<Rightarrow> s)"

definition String_of_number :: "int option \<Rightarrow> string" where
  "String_of_number v = (case v of None \<Rightarrow> ''undefined'' | Some n \<Rightarrow> Number_toString n)"

text \<open>\<open>ruleId\<close> of a lint message is \<open>string | null\<close>; a template prints \<open>null\<close> as "null".\<close>

definition String_of_nullable :: "string option \<Rightarrow> string" where
  "String_of_nullable v = (case v of None \<Rightarrow> ''null'' | Some s \<Rightarrow> s)"

subsection \<open>split, join, trim\<close>

text \<open>\<open>s.split(c)\<close> for a one-character separator: never the empty array.\<close>

fun split :: "char \<Rightarrow> string \<Rightarrow> string list" where
  "split c [] = [[]]"
| "split c (x # xs) =
     (if x = c then [] # split c xs
      else (case split c xs of [] \<Rightarrow> [[x]] | y # ys \<Rightarrow> (x # y) # ys))"

text \<open>\<open>xs.join(sep)\<close> on an array of strings.\<close>

fun join :: "string \<Rightarrow> string list \<Rightarrow> string" where
  "join sep [] = []"
| "join sep [x] = x"
| "join sep (x # y # ys) = x @ sep @ join sep (y # ys)"

text \<open>
  \<open>s.trim()\<close>: white space and line terminators off both ends. Strings are byte lists
  here, so the white space is the ASCII part of JavaScript's (TAB, LF, VT, FF, CR, SP).
\<close>

definition isWhiteSpace :: "char \<Rightarrow> bool" where
  "isWhiteSpace c = (c \<in> set [CHR 0x09, CHR 0x0A, CHR 0x0B, CHR 0x0C, CHR 0x0D, CHR 0x20])"

definition trim :: "string \<Rightarrow> string" where
  "trim s = rev (dropWhile isWhiteSpace (rev (dropWhile isWhiteSpace s)))"

text \<open>A value that is one record or an array of records (\<open>T | T[]\<close>).\<close>

datatype 'a OneOrMany = One 'a | Many "'a list"

section \<open>The data model\<close>

subsection \<open>Locations\<close>

text \<open>\<open>LineAndCharacter\<close> of typescript and \<open>Position\<close> of the language-server protocol: 0-based.\<close>

record LineAndCharacter =
  lc_line :: int
  lc_character :: int

text \<open>\<open>Record<'start' | 'end', LineAndCharacter>\<close> and the protocol's \<open>Range\<close>.\<close>

record Range =
  range_start :: LineAndCharacter
  range_end :: LineAndCharacter

text \<open>\<open>SourceLocation\<close> of @babel/code-frame: \<open>column\<close> and \<open>end\<close> are optional.\<close>

record Position =
  pos_line :: int
  pos_column :: "int option"

record SourceLocation =
  loc_start :: Position
  loc_end :: "Position option"

subsection \<open>Levels\<close>

text \<open>
  A level is a number at run time: \<open>normalizeTsDiagnostic\<close> stores a raw category in the
  field, and \<open>filterLogLevel\<close> tests it with \<open>typeof\<close> and \<open>!\<close>.
\<close>

type_synonym DiagnosticLevel = int

text \<open>
  Modelled from the spec: the enum \<open>DiagnosticLevel\<close> of types.ts, which logger.ts imports
  and which is not among the sources. The spec has the type-checker category cast to the
  level ordinal with "category 0 \<rightarrow> Warning-equivalent" and "category 1 (Error-equivalent)",
  and names the ordinals 0/1/2 as Warning/Error/Suggestion; Message is the fourth.
\<close>

definition DiagnosticLevel_Warning :: DiagnosticLevel where
  "DiagnosticLevel_Warning = 0"

definition DiagnosticLevel_Error :: DiagnosticLevel where
  "DiagnosticLevel_Error = 1"

definition DiagnosticLevel_Suggestion :: DiagnosticLevel where
  "DiagnosticLevel_Suggestion = 2"

definition DiagnosticLevel_Message :: DiagnosticLevel where
  "DiagnosticLevel_Message = 3"

subsection \<open>The canonical diagnostic and the runtime payload\<close>

datatype Stack = StackString string | StackArray "string list"

record NormalizedDiagnostic =
  nd_message :: "string option"
  nd_conclusion :: "string option"
  nd_stack :: "Stack option"
  nd_id :: "string option"
  nd_checker :: string
  nd_codeFrame :: "string option"
  nd_stripedCodeFrame :: "string option"
  nd_loc :: "SourceLocation option"
  nd_level :: "DiagnosticLevel option"

record RuntimeLoc =
  rl_file :: "string option"
  rl_line :: int
  rl_column :: int

record DiagnosticToRuntime =
  rt_message :: string
  rt_stack :: string
  rt_id :: "string option"
  rt_frame :: "string option"
  rt_checkerId :: string
  rt_level :: "DiagnosticLevel option"
  rt_loc :: "RuntimeLoc option"

subsection \<open>Raw diagnostics of the three checkers\<close>

text \<open>typescript: \<open>messageText: string | DiagnosticMessageChain\<close>.\<close>

datatype DiagnosticMessageChain = Chain string "DiagnosticMessageChain list"

datatype MessageText = Text string | MessageChain DiagnosticMessageChain

record SourceFile =
  sf_fileName :: string
  sf_text :: string
  sf_getLineAndCharacterOfPosition :: "(int \<Rightarrow> LineAndCharacter) option"

record TsDiagnostic =
  ts_file :: "SourceFile option"
  ts_messageText :: MessageText
  ts_category :: int
  ts_start :: "int option"
  ts_length :: "int option"

record LspDiagnostic =
  lsp_range :: Range
  lsp_severity :: "int option"
  lsp_message :: string

record LintMessage =
  lm_line :: int
  lm_column :: int
  lm_endLine :: "int option"
  lm_endColumn :: "int option"
  lm_severity :: int
  lm_ruleId :: "string option"
  lm_message :: string

record LintResult =
  lr_messages :: "LintMessage list"
  lr_source :: "string option"
  lr_filePath :: string

subsection \<open>What logger.ts takes from its platform and its libraries\<close>

text \<open>
  \<open>os.EOL\<close>, the styles of chalk, \<open>codeFrameColumns\<close> of @babel/code-frame (its third
  argument is the option \<open>forceColor\<close>), \<open>strip\<close> of strip-ansi and
  \<open>flattenDiagnosticMessageText\<close> of typescript are not code of this repository:
  the functions below take them as the parameters \<open>env\<close> (the terminal: \<open>os.EOL\<close> and
  chalk) and \<open>libs\<close> (the three library functions).

  \<open>codeFrameColumns\<close> can throw: it reads the length of source lines at indices that it
  computes from the location, and a location outside the source makes it read a line
  that does not exist. logger.ts catches nothing, so a throw of the frame renderer ends
  the function that called it. The renderer therefore returns an error or a frame, and
  every function that reaches it returns an error or its result.
\<close>

datatype error = TypeError

datatype ChalkStyle =
  bold | rgb nat nat nat
  | bgRedBright | bgYellowBright | bgBlueBright | bgCyanBright
  | yellow | red | green

record Terminal =
  EOL :: string
  chalk :: "ChalkStyle list \<Rightarrow> string \<Rightarrow> string"

record Libraries =
  codeFrameColumns :: "string \<Rightarrow> SourceLocation \<Rightarrow> bool \<Rightarrow> error + string"
  strip :: "string \<Rightarrow> string"
  flattenDiagnosticMessageText :: "MessageText \<Rightarrow> string \<Rightarrow> string"

text \<open>
  \<open>xs.map(f)\<close> for a callback that can throw: the elements are visited in order and the
  first throw ends the whole call.
\<close>

fun mapThrowing :: "('a \<Rightarrow> error + 'b) \<Rightarrow> 'a list \<Rightarrow> error + 'b list" where
  "mapThrowing f [] = Inr []"
| "mapThrowing f (x # xs) =
     (case f x of
        Inl e \<Rightarrow> Inl e
      | Inr y \<Rightarrow> (case mapThrowing f xs of Inl e \<Rightarrow> Inl e | Inr ys \<Rightarrow> Inr (y # ys)))"

section \<open>logger.ts\<close>

text \<open>
  The functions of logger.ts that build, filter and project diagnostics. Left out are
  \<open>normalizePublishDiagnosticParams\<close> (an asynchronous file read around
  \<open>normalizeLspDiagnostic\<close>), \<open>toViteCustomPayload\<close>, \<open>ensureCall\<close> and \<open>consoleLog\<close>.
\<close>

subsection \<open>Location conversions\<close>

definition tsLocationToBabelLocation :: "Range \<Rightarrow> SourceLocation" where
  "tsLocationToBabelLocation tsLoc =
     \<lparr>loc_start = \<lparr>pos_line = lc_line (range_start tsLoc) + 1,
                   pos_column = Some (lc_character (range_start tsLoc) + 1)\<rparr>,
      loc_end = Some \<lparr>pos_line = lc_line (range_end tsLoc) + 1,
                      pos_column = Some (lc_character (range_end tsLoc) + 1)\<rparr>\<rparr>"

definition lspRange2Location :: "Range \<Rightarrow> SourceLocation" where
  "lspRange2Location rng =
     \<lparr>loc_start = \<lparr>pos_line = lc_line (range_start rng) + 1,
                   pos_column = Some (lc_character (range_start rng) + 1)\<rparr>,
      loc_end = Some \<lparr>pos_line = lc_line (range_end rng) + 1,
                      pos_column = Some (lc_character (range_end rng) + 1)\<rparr>\<rparr>"

subsection \<open>filterLogLevel\<close>

definition defaultLogLevel :: "DiagnosticLevel list" where
  "defaultLogLevel =
     [DiagnosticLevel_Warning, DiagnosticLevel_Error, DiagnosticLevel_Suggestion,
      DiagnosticLevel_Message]"

text \<open>The result type \<open>NormalizedDiagnostic | null | NormalizedDiagnostic[]\<close>.\<close>

datatype FilterResult = Null | Single NormalizedDiagnostic | Array "NormalizedDiagnostic list"

text \<open>
  The array branch tests \<open>typeof d.level !== 'number'\<close>, which only \<open>undefined\<close> meets.
  The other branch tests \<open>!diagnostics.level\<close>, which \<open>undefined\<close> and the number 0 meet.
\<close>

definition filterLogLevel ::
  "NormalizedDiagnostic OneOrMany \<Rightarrow> DiagnosticLevel list option \<Rightarrow> FilterResult" where
  "filterLogLevel diagnostics level_arg =
     (let level = (case level_arg of None \<Rightarrow> defaultLogLevel | Some l \<Rightarrow> l) in
      case diagnostics of
        Many ds \<Rightarrow>
          Array (filter (\<lambda>d. case nd_level d of None \<Rightarrow> False | Some n \<Rightarrow> n \<in> set level) ds)
      | One d \<Rightarrow>
          (case nd_level d of
             None \<Rightarrow> Null
           | Some n \<Rightarrow> if n = 0 then Null else if n \<in> set level then Single d else Null))"

subsection \<open>diagnosticToTerminalLog\<close>

definition nameInLabel :: "string option \<Rightarrow> string" where
  "nameInLabel name =
     (case name of None \<Rightarrow> [] | Some n \<Rightarrow> if n = [] then [] else ''('' @ n @ '')'')"

definition boldBlack :: "ChalkStyle list" where
  "boldBlack = [bold, rgb 0 0 0]"

text \<open>An object literal keyed by level; a key it does not have reads \<open>undefined\<close>.\<close>

definition labelMap :: "Terminal \<Rightarrow> string option \<Rightarrow> DiagnosticLevel \<Rightarrow> string option" where
  "labelMap env name =
     [DiagnosticLevel_Error \<mapsto>
        chalk env (boldBlack @ [bgRedBright]) ('' ERROR'' @ nameInLabel name @ '' ''),
      DiagnosticLevel_Warning \<mapsto>
        chalk env (boldBlack @ [bgYellowBright]) ('' WARNING'' @ nameInLabel name @ '' ''),
      DiagnosticLevel_Suggestion \<mapsto>
        chalk env (boldBlack @ [bgBlueBright]) ('' SUGGESTION'' @ nameInLabel name @ '' ''),
      DiagnosticLevel_Message \<mapsto>
        chalk env (boldBlack @ [bgCyanBright]) ('' MESSAGE'' @ nameInLabel name @ '' '')]"

text \<open>\<open>Boolean\<close> on a string that may be \<open>undefined\<close>: the empty string is falsy too.\<close>

definition Boolean :: "string option \<Rightarrow> bool" where
  "Boolean v = (case v of None \<Rightarrow> False | Some s \<Rightarrow> s \<noteq> [])"

definition levelLabel :: "Terminal \<Rightarrow> NormalizedDiagnostic \<Rightarrow> string option \<Rightarrow> string option" where
  "levelLabel env d name =
     labelMap env name (case nd_level d of None \<Rightarrow> DiagnosticLevel_Error | Some l \<Rightarrow> l)"

definition fileLabel :: "Terminal \<Rightarrow> string" where
  "fileLabel env = chalk env (boldBlack @ [bgCyanBright]) '' FILE '' @ '' ''"

definition position :: "Terminal \<Rightarrow> NormalizedDiagnostic \<Rightarrow> string" where
  "position env d =
     (case nd_loc d of
        None \<Rightarrow> []
      | Some loc \<Rightarrow>
          chalk env [yellow] (Number_toString (pos_line (loc_start loc))) @ '':'' @
          chalk env [yellow] (String_of_number (pos_column (loc_start loc))))"

text \<open>
  The four entries of the array before \<open>.filter(Boolean)\<close>. The first three are built
  with \<open>+\<close>, so they are strings whatever their operands are; the fourth is the field.
\<close>

definition terminalLogParts ::
  "Terminal \<Rightarrow> NormalizedDiagnostic \<Rightarrow> string option \<Rightarrow> string option list" where
  "terminalLogParts env d name =
     [Some (String_of (levelLabel env d name) @ '' '' @ String_of (nd_message d)),
      Some (fileLabel env @ String_of (nd_id d) @ '':'' @ position env d @ EOL env),
      Some (String_of (nd_codeFrame d) @ EOL env),
      nd_conclusion d]"

definition diagnosticToTerminalLog ::
  "Terminal \<Rightarrow> NormalizedDiagnostic \<Rightarrow> string option \<Rightarrow> string" where
  "diagnosticToTerminalLog env d name =
     join (EOL env)
       (map (\<lambda>v. case v of None \<Rightarrow> [] | Some s \<Rightarrow> s)
          (filter Boolean (terminalLogParts env d name)))"

subsection \<open>diagnosticToRuntimeError\<close>

text \<open>The callback of \<open>diagnosticsArray.map\<close>.\<close>

definition toRuntime :: "Terminal \<Rightarrow> NormalizedDiagnostic \<Rightarrow> DiagnosticToRuntime" where
  "toRuntime env d =
     (let loc = (case nd_loc d of
                   None \<Rightarrow> None
                 | Some l \<Rightarrow>
                     Some \<lparr>rl_file = nd_id d,
                           rl_line = pos_line (loc_start l),
                           rl_column = (case pos_column (loc_start l) of
                                          Some c \<Rightarrow> c | None \<Rightarrow> 0)\<rparr>)
      in \<lparr>rt_message = (case nd_message d of None \<Rightarrow> [] | Some m \<Rightarrow> m),
          rt_stack = (case nd_stack d of
                        Some (StackString s) \<Rightarrow> s
                      | Some (StackArray ss) \<Rightarrow> join (EOL env) ss
                      | None \<Rightarrow> []),
          rt_id = nd_id d,
          rt_frame = nd_stripedCodeFrame d,
          rt_checkerId = nd_checker d,
          rt_level = nd_level d,
          rt_loc = loc\<rparr>)"

definition diagnosticToRuntimeError ::
  "Terminal \<Rightarrow> NormalizedDiagnostic OneOrMany \<Rightarrow> DiagnosticToRuntime OneOrMany" where
  "diagnosticToRuntimeError env diagnostics =
     (let diagnosticsArray = (case diagnostics of Many ds \<Rightarrow> ds | One d \<Rightarrow> [d]);
          results = map (toRuntime env) diagnosticsArray
      in case diagnostics of Many ds \<Rightarrow> Many results | One d \<Rightarrow> One (hd results))"

subsection \<open>createFrame and the summary line\<close>

definition createFrame ::
  "Terminal \<Rightarrow> Libraries \<Rightarrow> string \<Rightarrow> SourceLocation \<Rightarrow> error + string" where
  "createFrame env libs source location =
     (case codeFrameColumns libs source location True of
        Inl e \<Rightarrow> Inl e
      | Inr frame \<Rightarrow>
          Inr (join (EOL env) (map (\<lambda>line. ''  '' @ line) (split (CHR 0x0A) frame))))"

definition wrapCheckerSummary :: "string \<Rightarrow> string \<Rightarrow> string" where
  "wrapCheckerSummary checkerName rawSummary = ''['' @ checkerName @ ''] '' @ rawSummary"

definition composeCheckerSummary :: "Terminal \<Rightarrow> string \<Rightarrow> int \<Rightarrow> int \<Rightarrow> string" where
  "composeCheckerSummary env checkerName errorCount warningCount =
     (let message =
            ''Found '' @ Number_toString errorCount @ '' error'' @
            (if errorCount > 1 then ''s'' else []) @
            '' and '' @ Number_toString warningCount @ '' warning'' @
            (if warningCount > 1 then ''s'' else []);
          hasError = errorCount > 0;
          hasWarning = warningCount > 0;
          color = (if hasError then red else if hasWarning then yellow else green)
      in chalk env [color] (wrapCheckerSummary checkerName message))"

subsection \<open>The normalizers\<close>

text \<open>\<open>codeFrame && strip(codeFrame)\<close>: \<open>undefined\<close> and the empty string stay as they are.\<close>

definition andStrip :: "Libraries \<Rightarrow> string option \<Rightarrow> string option" where
  "andStrip libs codeFrame =
     (case codeFrame of
        None \<Rightarrow> None
      | Some s \<Rightarrow> if s = [] then Some [] else Some (strip libs s))"

text \<open>
  The location of a type-checker diagnostic (\<open>let loc\<close>): defined when the diagnostic has
  a start, a file that can map positions, and a length.
\<close>

definition tsLoc :: "TsDiagnostic \<Rightarrow> SourceLocation option" where
  "tsLoc d =
     (case (ts_start d, ts_file d, ts_length d) of
        (Some start, Some file, Some len) \<Rightarrow>
          (case sf_getLineAndCharacterOfPosition file of
             None \<Rightarrow> None
           | Some getLineAndCharacterOfPosition \<Rightarrow>
               Some (tsLocationToBabelLocation
                       \<lparr>range_start = getLineAndCharacterOfPosition start,
                        range_end = getLineAndCharacterOfPosition (start + len)\<rparr>))
      | _ \<Rightarrow> None)"

text \<open>
  Its frame (\<open>let codeFrame\<close>): rendered only when there is a location, so only then can
  the renderer throw.
\<close>

definition tsCodeFrame :: "Terminal \<Rightarrow> Libraries \<Rightarrow> TsDiagnostic \<Rightarrow> error + string option" where
  "tsCodeFrame env libs d =
     (case (tsLoc d, ts_file d) of
        (Some loc, Some file) \<Rightarrow>
          (case createFrame env libs (sf_text file) loc of
             Inl e \<Rightarrow> Inl e
           | Inr frame \<Rightarrow> Inr (Some frame))
      | _ \<Rightarrow> Inr None)"

definition normalizeTsDiagnostic ::
  "Terminal \<Rightarrow> Libraries \<Rightarrow> TsDiagnostic \<Rightarrow> error + NormalizedDiagnostic" where
  "normalizeTsDiagnostic env libs d =
     (let fileName = map_option sf_fileName (ts_file d);
          message = flattenDiagnosticMessageText libs (ts_messageText d) (EOL env);
          loc = tsLoc d
      in case tsCodeFrame env libs d of
           Inl e \<Rightarrow> Inl e
         | Inr codeFrame \<Rightarrow>
             Inr \<lparr>nd_message = Some message,
                  nd_conclusion = Some [],
                  nd_stack = None,
                  nd_id = fileName,
                  nd_checker = ''TypeScript'',
                  nd_codeFrame = codeFrame,
                  nd_stripedCodeFrame = andStrip libs codeFrame,
                  nd_loc = loc,
                  nd_level = Some (ts_category d)\<rparr>)"

definition normalizeVueTscDiagnostic ::
  "Terminal \<Rightarrow> Libraries \<Rightarrow> TsDiagnostic \<Rightarrow> error + NormalizedDiagnostic" where
  "normalizeVueTscDiagnostic env libs d =
     (case normalizeTsDiagnostic env libs d of
        Inl e \<Rightarrow> Inl e
      | Inr diagnostic \<Rightarrow> Inr (diagnostic\<lparr>nd_checker := ''vue-tsc''\<rparr>))"

definition normalizeLspDiagnostic ::
  "Libraries \<Rightarrow> LspDiagnostic \<Rightarrow> string \<Rightarrow> string \<Rightarrow> error + NormalizedDiagnostic" where
  "normalizeLspDiagnostic libs diagnostic absFilePath fileText =
     (let loc = lspRange2Location (lsp_range diagnostic) in
      case codeFrameColumns libs fileText loc False of
        Inl e \<Rightarrow> Inl e
      | Inr codeFrame \<Rightarrow>
          (let level = (if lsp_severity diagnostic = Some 1 then DiagnosticLevel_Error
                        else if lsp_severity diagnostic = Some 2 then DiagnosticLevel_Warning
                        else if lsp_severity diagnostic = Some 3 then DiagnosticLevel_Message
                        else if lsp_severity diagnostic = Some 4 then DiagnosticLevel_Suggestion
                        else DiagnosticLevel_Error)
           in Inr \<lparr>nd_message = Some (trim (lsp_message diagnostic)),
                    nd_conclusion = Some [],
                    nd_stack = None,
                    nd_id = Some absFilePath,
                    nd_checker = ''VLS'',
                    nd_codeFrame = Some codeFrame,
                    nd_stripedCodeFrame = andStrip libs (Some codeFrame),
                    nd_loc = Some loc,
                    nd_level = Some level\<rparr>))"

text \<open>
  The location of a lint message (\<open>const loc\<close>). \<open>d.endLine || 0\<close> is 0 for an absent
  \<open>endLine\<close> (and for the number 0).
\<close>

definition eslintLoc :: "LintMessage \<Rightarrow> SourceLocation" where
  "eslintLoc d =
     \<lparr>loc_start = \<lparr>pos_line = lm_line d, pos_column = Some (lm_column d)\<rparr>,
      loc_end = Some \<lparr>pos_line = (case lm_endLine d of
                                     None \<Rightarrow> 0
                                   | Some n \<Rightarrow> if n = 0 then 0 else n),
                       pos_column = lm_endColumn d\<rparr>\<rparr>"

text \<open>Its frame (\<open>const codeFrame\<close>), on the source of the lint result or on the empty text.\<close>

definition eslintCodeFrame ::
  "Terminal \<Rightarrow> Libraries \<Rightarrow> LintResult \<Rightarrow> LintMessage \<Rightarrow> error + string" where
  "eslintCodeFrame env libs diagnostic d =
     createFrame env libs (case lr_source diagnostic of None \<Rightarrow> [] | Some s \<Rightarrow> s) (eslintLoc d)"

text \<open>
  The callback of \<open>diagnostic.messages.map\<close>: \<open>null\<close> for severity 0, before any frame is
  rendered; a record otherwise, unless the renderer throws.
\<close>

definition normalizeEslintMessage ::
  "Terminal \<Rightarrow> Libraries \<Rightarrow> LintResult \<Rightarrow> LintMessage \<Rightarrow> error + NormalizedDiagnostic option" where
  "normalizeEslintMessage env libs diagnostic d =
     (if lm_severity d = 0 then Inr None
      else
        let level = (if lm_severity d = 1 then DiagnosticLevel_Warning
                     else if lm_severity d = 2 then DiagnosticLevel_Error
                     else DiagnosticLevel_Error);
            loc = eslintLoc d
        in case eslintCodeFrame env libs diagnostic d of
             Inl e \<Rightarrow> Inl e
           | Inr codeFrame \<Rightarrow>
               Inr (Some \<lparr>nd_message =
                             Some (lm_message d @ '' ('' @ String_of_nullable (lm_ruleId d) @ '')''),
                           nd_conclusion = Some [],
                           nd_stack = None,
                           nd_id = Some (lr_filePath diagnostic),
                           nd_checker = ''ESLint'',
                           nd_codeFrame = Some codeFrame,
                           nd_stripedCodeFrame = andStrip libs (Some codeFrame),
                           nd_loc = Some loc,
                           nd_level = Some level\<rparr>))"

definition isNormalizedDiagnostic :: "NormalizedDiagnostic option \<Rightarrow> bool" where
  "isNormalizedDiagnostic d = (d \<noteq> None)"

definition normalizeEslintDiagnostic ::
  "Terminal \<Rightarrow> Libraries \<Rightarrow> LintResult \<Rightarrow> error + NormalizedDiagnostic list" where
  "normalizeEslintDiagnostic env libs diagnostic =
     (case mapThrowing (normalizeEslintMessage env libs diagnostic) (lr_messages diagnostic) of
        Inl e \<Rightarrow> Inl e
      | Inr ds \<Rightarrow> Inr (map the (filter isNormalizedDiagnostic ds)))"

text \<open>
  A canonical diagnostic is a record that one of the normalizers has returned.
\<close>

inductive canonical :: "Terminal \<Rightarrow> Libraries \<Rightarrow> NormalizedDiagnostic \<Rightarrow> bool"
  for env :: Terminal and libs :: Libraries where
  fromTs: "normalizeTsDiagnostic env libs d = Inr nd \<Longrightarrow> canonical env libs nd"
| fromVueTsc: "normalizeVueTscDiagnostic env libs d = Inr nd \<Longrightarrow> canonical env libs nd"
| fromLsp: "normalizeLspDiagnostic libs diagnostic absFilePath fileText = Inr nd \<Longrightarrow>
     canonical env libs nd"
| fromEslint: "normalizeEslintDiagnostic env libs result = Inr nds \<Longrightarrow> nd \<in> set nds \<Longrightarrow>
     canonical env libs nd"

text \<open>
  Every ANSI colour sequence starts with the character ESC, so a frame without ESC
  carries no colour escape. An absent frame carries none.
\<close>

definition containsEscape :: "string option \<Rightarrow> bool" where
  "containsEscape v = (case v of None \<Rightarrow> False | Some s \<Rightarrow> CHR 0x1B \<in> set s)"

section \<open>Terminals, libraries and inputs for the examples\<close>

text \<open>A terminal without colour support: chalk returns its argument. \<open>os.EOL\<close> is a line feed.\<close>

definition plain_terminal :: Terminal where
  "plain_terminal = \<lparr>EOL = [CHR 0x0A], chalk = (\<lambda>styles s. s)\<rparr>"

text \<open>
  A terminal with colour: chalk opens every style with its SGR sequence (\<open>ESC [ code m\<close>)
  and closes them in reverse order.
\<close>

definition sgr :: "string \<Rightarrow> string" where
  "sgr code = CHR 0x1B # CHR ''['' # code @ ''m''"

fun styleOpen :: "ChalkStyle \<Rightarrow> string" where
  "styleOpen bold = sgr ''1''"
| "styleOpen (rgb r g b) = sgr (''38;2;'' @ nat_digits r @ '';'' @ nat_digits g @ '';'' @ nat_digits b)"
| "styleOpen bgRedBright = sgr ''101''"
| "styleOpen bgYellowBright = sgr ''103''"
| "styleOpen bgBlueBright = sgr ''104''"
| "styleOpen bgCyanBright = sgr ''106''"
| "styleOpen yellow = sgr ''33''"
| "styleOpen red = sgr ''31''"
| "styleOpen green = sgr ''32''"

fun styleClose :: "ChalkStyle \<Rightarrow> string" where
  "styleClose bold = sgr ''22''"
| "styleClose (rgb r g b) = sgr ''39''"
| "styleClose bgRedBright = sgr ''49''"
| "styleClose bgYellowBright = sgr ''49''"
| "styleClose bgBlueBright = sgr ''49''"
| "styleClose bgCyanBright = sgr ''49''"
| "styleClose yellow = sgr ''39''"
| "styleClose red = sgr ''39''"
| "styleClose green = sgr ''39''"

definition ansi_terminal :: Terminal where
  "ansi_terminal =
     \<lparr>EOL = [CHR 0x0A],
      chalk = (\<lambda>styles s. concat (map styleOpen styles) @ s @ concat (map styleClose (rev styles)))\<rparr>"

text \<open>
  Where @babel/code-frame throws. For a location that ends on a later line than it starts
  and has a start column, the renderer reads the length of the source line at index
  \<open>startLine - 1\<close> and, when the location covers three lines or more, of the line at
  index \<open>startLine\<close>; a line that the source does not have is \<open>undefined\<close>, and reading
  its length is a TypeError. An absent start column counts as 0, an absent end as the
  start.
\<close>

definition readsMissingLine :: "string list \<Rightarrow> SourceLocation \<Rightarrow> bool" where
  "readsMissingLine sourceLines loc =
     (let startLine = pos_line (loc_start loc);
          startColumn = (case pos_column (loc_start loc) of None \<Rightarrow> 0 | Some c \<Rightarrow> c);
          endLine = (case loc_end loc of None \<Rightarrow> startLine | Some e \<Rightarrow> pos_line e);
          lineDiff = endLine - startLine;
          missing = (\<lambda>i. i < 0 \<or> int (length sourceLines) \<le> i)
      in 0 < lineDiff \<and> startColumn \<noteq> 0 \<and>
         (missing (startLine - 1) \<or> (2 \<le> lineDiff \<and> missing startLine)))"

text \<open>
  A stand-in for \<open>codeFrameColumns\<close>: it throws where the library does, and otherwise
  returns the source text, between two reset sequences when \<open>forceColor\<close> is set (the
  library ends with \<open>chalk.reset(frame)\<close>). The text of its frames is not the library's:
  the examples say where a frame carries an escape and nothing else about it.
\<close>

definition sample_codeFrameColumns :: "string \<Rightarrow> SourceLocation \<Rightarrow> bool \<Rightarrow> error + string" where
  "sample_codeFrameColumns source loc forceColor =
     (if readsMissingLine (split (CHR 0x0A) source) loc then Inl TypeError
      else Inr (if forceColor then sgr ''0'' @ source @ sgr ''0'' else source))"

text \<open>
  A stand-in for \<open>strip\<close>: it removes everything from an ESC up to the next \<open>m\<close>, which is
  what strip-ansi does to an SGR sequence. The flag says whether a sequence is open.
\<close>

fun stripFrom :: "bool \<Rightarrow> string \<Rightarrow> string" where
  "stripFrom inside [] = []"
| "stripFrom inside (c # cs) =
     (if inside then (if c = CHR ''m'' then stripFrom False cs else stripFrom True cs)
      else if c = CHR 0x1B then stripFrom True cs
      else c # stripFrom False cs)"

text \<open>\<open>flattenDiagnosticMessageText\<close> as typescript defines it, on a chain and on a text.\<close>

fun flattenChain :: "string \<Rightarrow> nat \<Rightarrow> DiagnosticMessageChain \<Rightarrow> string" where
  "flattenChain newLine indent (Chain messageText next) =
     (if indent \<noteq> 0 then newLine @ concat (replicate indent ''  '') else []) @
     messageText @ concat (map (flattenChain newLine (Suc indent)) next)"

definition sample_libraries :: Libraries where
  "sample_libraries =
     \<lparr>codeFrameColumns = sample_codeFrameColumns,
      strip = stripFrom False,
      flattenDiagnosticMessageText =
        (\<lambda>m newLine. case m of Text s \<Rightarrow> s | MessageChain c \<Rightarrow> flattenChain newLine 0 c)\<rparr>"

text \<open>A lint warning as \<open>normalizeEslintDiagnostic\<close> builds it (severity 1).\<close>

definition lintWarning :: NormalizedDiagnostic where
  "lintWarning =
     \<lparr>nd_message = Some ''Unexpected console statement. (no-console)'',
      nd_conclusion = Some [],
      nd_stack = None,
      nd_id = Some ''/src/main.ts'',
      nd_checker = ''ESLint'',
      nd_codeFrame = Some ''  console.log(1)'',
      nd_stripedCodeFrame = Some ''  console.log(1)'',
      nd_loc = Some \<lparr>loc_start = \<lparr>pos_line = 1, pos_column = Some 1\<rparr>,
                      loc_end = Some \<lparr>pos_line = 1, pos_column = Some 12\<rparr>\<rparr>,
      nd_level = Some DiagnosticLevel_Warning\<rparr>"

text \<open>A record that no normalizer has classified: no level, no location.\<close>

definition unclassifiedDiagnostic :: NormalizedDiagnostic where
  "unclassifiedDiagnostic =
     \<lparr>nd_message = Some ''something happened'',
      nd_conclusion = None,
      nd_stack = None,
      nd_id = Some ''/src/main.ts'',
      nd_checker = ''VLS'',
      nd_codeFrame = Some ''  frame'',
      nd_stripedCodeFrame = Some ''  frame'',
      nd_loc = None,
      nd_level = None\<rparr>"

text \<open>
  A type-checker diagnostic that belongs to no file (a compiler-option error): typescript
  leaves \<open>file\<close>, \<open>start\<close> and \<open>length\<close> undefined. Its category is 1, Error.
\<close>

definition globalTsDiagnostic :: TsDiagnostic where
  "globalTsDiagnostic =
     \<lparr>ts_file = None,
      ts_messageText = Text ''Unknown compiler option'',
      ts_category = 1,
      ts_start = None,
      ts_length = None\<rparr>"

text \<open>The canonical diagnostic that \<open>normalizeTsDiagnostic\<close> returns for it.\<close>

definition globalDiagnostic :: NormalizedDiagnostic where
  "globalDiagnostic =
     \<lparr>nd_message = Some ''Unknown compiler option'',
      nd_conclusion = Some [],
      nd_stack = None,
      nd_id = None,
      nd_checker = ''TypeScript'',
      nd_codeFrame = None,
      nd_stripedCodeFrame = None,
      nd_loc = None,
      nd_level = Some 1\<rparr>"

text \<open>The same type-checker diagnostic with a category that is none of the four levels.\<close>

definition uncategorizedTsDiagnostic :: TsDiagnostic where
  "uncategorizedTsDiagnostic = globalTsDiagnostic\<lparr>ts_category := 7\<rparr>"

text \<open>
  A lint result of two source lines and three messages inside them: an error without
  \<open>endLine\<close>, a message that is off, and a warning without a rule.
\<close>

definition sampleLintResult :: LintResult where
  "sampleLintResult =
     \<lparr>lr_messages =
        [\<lparr>lm_line = 1, lm_column = 9, lm_endLine = None, lm_endColumn = None,
          lm_severity = 2, lm_ruleId = Some ''no-undef'', lm_message = ''x is not defined''\<rparr>,
         \<lparr>lm_line = 1, lm_column = 10, lm_endLine = Some 1, lm_endColumn = Some 10,
          lm_severity = 0, lm_ruleId = Some ''semi'', lm_message = ''Missing semicolon''\<rparr>,
         \<lparr>lm_line = 2, lm_column = 1, lm_endLine = Some 2, lm_endColumn = Some 9,
          lm_severity = 1, lm_ruleId = None, lm_message = ''Parsing warning''\<rparr>],
      lr_source = Some (''let y = x'' @ [CHR 0x0A] @ ''let z = 1''),
      lr_filePath = ''/src/main.ts''\<rparr>"

text \<open>
  A lint result without source text (ESLint leaves \<open>source\<close> out when it reports a fixed
  \<open>output\<close>), whose third message lies on the lines 7 and 8: the frame is rendered on
  the empty text, which does not have these lines.
\<close>

definition overflowingLintResult :: LintResult where
  "overflowingLintResult =
     \<lparr>lr_messages =
        [\<lparr>lm_line = 3, lm_column = 5, lm_endLine = None, lm_endColumn = None,
          lm_severity = 2, lm_ruleId = Some ''no-undef'', lm_message = ''x is not defined''\<rparr>,
         \<lparr>lm_line = 4, lm_column = 1, lm_endLine = Some 4, lm_endColumn = Some 9,
          lm_severity = 0, lm_ruleId = Some ''semi'', lm_message = ''Missing semicolon''\<rparr>,
         \<lparr>lm_line = 7, lm_column = 2, lm_endLine = Some 8, lm_endColumn = Some 3,
          lm_severity = 1, lm_ruleId = None, lm_message = ''Parsing warning''\<rparr>],
      lr_source = None,
      lr_filePath = ''/src/main.ts''\<rparr>"



text \<open>
  A type-checker diagnostic inside a file of one line: one character at the offset 4.
\<close>

definition locatedTsDiagnostic :: TsDiagnostic where
  "locatedTsDiagnostic =
     \<lparr>ts_file = Some \<lparr>sf_fileName = ''/src/main.ts'',
                       sf_text = ''let x: number = 1n'',
                       sf_getLineAndCharacterOfPosition =
                         Some (\<lambda>pos. \<lparr>lc_line = 0, lc_character = pos\<rparr>)\<rparr>,
      ts_messageText = Text ''Type mismatch'',
      ts_category = 1,
      ts_start = Some 4,
      ts_length = Some 1\<rparr>"

section \<open>Properties\<close>

subsection \<open>Auxiliary facts\<close>

lemma join_Cons_prefix: "prefix x (join sep (x # xs))"
  by (cases xs) simp_all

lemma ansi_terminal_chalk_keeps_text: "sublist s (chalk ansi_terminal styles s)"
  by (simp add: ansi_terminal_def)

lemma stripFrom_no_escape: "CHR 0x1B \<notin> set (stripFrom inside s)"
  by (induction s arbitrary: inside) simp_all

text \<open>A map whose callback can throw returns exactly when the callback returns everywhere.\<close>

lemma mapThrowing_Inr_iff: "mapThrowing f xs = Inr ys \<longleftrightarrow> map f xs = map Inr ys"
proof (induction xs arbitrary: ys)
  case Nil
  then show ?case by auto
next
  case (Cons x xs)
  show ?case
  proof (cases "f x")
    case (Inl e)
    then show ?thesis by (cases ys) auto
  next
    case (Inr y)
    show ?thesis
    proof (cases "mapThrowing f xs")
      case (Inl e)
      with Inr Cons.IH show ?thesis by (cases ys) auto
    next
      case r: (Inr zs)
      with Inr Cons.IH [of zs] Cons.IH show ?thesis by (cases ys) auto
    qed
  qed
qed

lemma mapThrowing_Inl_iff:
  "(\<exists>e. mapThrowing f xs = Inl e) \<longleftrightarrow> (\<exists>x\<in>set xs. \<exists>e. f x = Inl e)"
  by (induction xs) (auto split: sum.splits)

subsection \<open>The callback of the linter normalizer\<close>

lemma isNormalizedDiagnostic_simps:
  "isNormalizedDiagnostic None = False"
  "isNormalizedDiagnostic (Some nd) = True"
  by (simp_all add: isNormalizedDiagnostic_def)

lemma normalizeEslintMessage_off:
  "lm_severity m = 0 \<Longrightarrow> normalizeEslintMessage env libs r m = Inr None"
  by (simp add: normalizeEslintMessage_def)

lemma normalizeEslintMessage_throws:
  "lm_severity m \<noteq> 0 \<Longrightarrow> eslintCodeFrame env libs r m = Inl e \<Longrightarrow>
   normalizeEslintMessage env libs r m = Inl e"
  by (simp add: normalizeEslintMessage_def)

lemma normalizeEslintMessage_returns:
  assumes "lm_severity m \<noteq> 0" and "eslintCodeFrame env libs r m = Inr f"
  shows "\<exists>nd. normalizeEslintMessage env libs r m = Inr (Some nd)
           \<and> nd_level nd =
               Some (if lm_severity m = 1 then DiagnosticLevel_Warning else DiagnosticLevel_Error)
           \<and> nd_message nd = Some (lm_message m @ '' ('' @ String_of_nullable (lm_ruleId m) @ '')'')
           \<and> nd_loc nd = Some (eslintLoc m)
           \<and> nd_codeFrame nd = Some f
           \<and> nd_stripedCodeFrame nd = andStrip libs (Some f)"
  using assms by (simp add: normalizeEslintMessage_def Let_def)


text \<open>
  When the frame of every message that is not off can be rendered, the normalizer
  returns one record for each of these messages, in their order.
\<close>

lemma normalizeEslintDiagnostic_returns:
  assumes "\<forall>m\<in>set (lr_messages r). lm_severity m \<noteq> 0 \<longrightarrow> (\<exists>f. eslintCodeFrame env libs r m = Inr f)"
  shows "\<exists>ds. normalizeEslintDiagnostic env libs r = Inr ds
           \<and> map nd_level ds =
               map (\<lambda>m. Some (if lm_severity m = 1 then DiagnosticLevel_Warning
                               else DiagnosticLevel_Error))
                 (filter (\<lambda>m. lm_severity m \<noteq> 0) (lr_messages r))
           \<and> map nd_message ds =
               map (\<lambda>m. Some (lm_message m @ '' ('' @ String_of_nullable (lm_ruleId m) @ '')''))
                 (filter (\<lambda>m. lm_severity m \<noteq> 0) (lr_messages r))
           \<and> map nd_loc ds =
               map (\<lambda>m. Some (eslintLoc m)) (filter (\<lambda>m. lm_severity m \<noteq> 0) (lr_messages r))"
proof -
  have "\<forall>m\<in>set ms. lm_severity m \<noteq> 0 \<longrightarrow> (\<exists>f. eslintCodeFrame env libs r m = Inr f) \<Longrightarrow>
        \<exists>xs. mapThrowing (normalizeEslintMessage env libs r) ms = Inr xs
          \<and> map nd_level (map the (filter isNormalizedDiagnostic xs)) =
              map (\<lambda>m. Some (if lm_severity m = 1 then DiagnosticLevel_Warning
                              else DiagnosticLevel_Error))
                (filter (\<lambda>m. lm_severity m \<noteq> 0) ms)
          \<and> map nd_message (map the (filter isNormalizedDiagnostic xs)) =
              map (\<lambda>m. Some (lm_message m @ '' ('' @ String_of_nullable (lm_ruleId m) @ '')''))
                (filter (\<lambda>m. lm_severity m \<noteq> 0) ms)
          \<and> map nd_loc (map the (filter isNormalizedDiagnostic xs)) =
              map (\<lambda>m. Some (eslintLoc m)) (filter (\<lambda>m. lm_severity m \<noteq> 0) ms)" for ms
  proof (induction ms)
    case Nil
    then show ?case by simp
  next
    case (Cons m ms)
    then obtain xs where xs: "mapThrowing (normalizeEslintMessage env libs r) ms = Inr xs"
      and lv: "map nd_level (map the (filter isNormalizedDiagnostic xs)) =
              map (\<lambda>m. Some (if lm_severity m = 1 then DiagnosticLevel_Warning
                              else DiagnosticLevel_Error))
                (filter (\<lambda>m. lm_severity m \<noteq> 0) ms)"
      and msg: "map nd_message (map the (filter isNormalizedDiagnostic xs)) =
              map (\<lambda>m. Some (lm_message m @ '' ('' @ String_of_nullable (lm_ruleId m) @ '')''))
                (filter (\<lambda>m. lm_severity m \<noteq> 0) ms)"
      and loc: "map nd_loc (map the (filter isNormalizedDiagnostic xs)) =
              map (\<lambda>m. Some (eslintLoc m)) (filter (\<lambda>m. lm_severity m \<noteq> 0) ms)"
      by auto
    show ?case
    proof (cases "lm_severity m = 0")
      case True
      with xs lv msg loc show ?thesis
        by (simp add: normalizeEslintMessage_off isNormalizedDiagnostic_simps)
    next
      case False
      with Cons.prems obtain f where "eslintCodeFrame env libs r m = Inr f" by auto
      from normalizeEslintMessage_returns [OF False this]
      obtain nd where "normalizeEslintMessage env libs r m = Inr (Some nd)"
        and "nd_level nd =
               Some (if lm_severity m = 1 then DiagnosticLevel_Warning else DiagnosticLevel_Error)"
        and "nd_message nd = Some (lm_message m @ '' ('' @ String_of_nullable (lm_ruleId m) @ '')'')"
        and "nd_loc nd = Some (eslintLoc m)"
        by blast
      with False xs lv msg loc show ?thesis
        by (simp add: isNormalizedDiagnostic_simps)
    qed
  qed
  from this [OF assms] show ?thesis
    by (auto simp add: normalizeEslintDiagnostic_def)
qed

text \<open>When the renderer throws at a message that is not off, the normalizer throws.\<close>

lemma normalizeEslintDiagnostic_throws:
  assumes "m \<in> set (lr_messages r)" and "lm_severity m \<noteq> 0"
    and "eslintCodeFrame env libs r m = Inl e"
  shows "\<exists>e'. normalizeEslintDiagnostic env libs r = Inl e'"
proof -
  have "\<exists>x\<in>set (lr_messages r). \<exists>e. normalizeEslintMessage env libs r x = Inl e"
    using assms normalizeEslintMessage_throws by blast
  then obtain e' where
    "mapThrowing (normalizeEslintMessage env libs r) (lr_messages r) = Inl e'"
    using mapThrowing_Inl_iff [of "normalizeEslintMessage env libs r" "lr_messages r"] by blast
  then show ?thesis by (simp add: normalizeEslintDiagnostic_def)
qed


subsection \<open>The stripped frame of a canonical diagnostic\<close>

lemma toRuntime_ignores_codeFrame:
  "toRuntime env (d\<lparr>nd_codeFrame := cf\<rparr>) = toRuntime env d"
  by (simp add: toRuntime_def cong: option.case_cong)

lemma toRuntime_frame: "rt_frame (toRuntime env d) = nd_stripedCodeFrame d"
  by (simp add: toRuntime_def Let_def)

text \<open>
  Every normalizer fills \<open>stripedCodeFrame\<close> with \<open>codeFrame && strip(codeFrame)\<close>.
\<close>

lemma canonical_striped:
  assumes "canonical env libs nd"
  shows "nd_stripedCodeFrame nd = andStrip libs (nd_codeFrame nd)"
  using assms
proof cases
  case (fromTs d)
  then show ?thesis
    by (auto simp add: normalizeTsDiagnostic_def Let_def split: sum.splits)
next
  case (fromVueTsc d)
  then show ?thesis
    by (auto simp add: normalizeVueTscDiagnostic_def normalizeTsDiagnostic_def Let_def
        split: sum.splits)
next
  case (fromLsp diagnostic absFilePath fileText)
  then show ?thesis
    by (auto simp add: normalizeLspDiagnostic_def Let_def split: sum.splits)
next
  case (fromEslint result nds)
  then obtain xs where xs: "mapThrowing (normalizeEslintMessage env libs result) (lr_messages result) = Inr xs"
    and nds: "nds = map the (filter isNormalizedDiagnostic xs)"
    by (auto simp add: normalizeEslintDiagnostic_def split: sum.splits)
  from nds fromEslint(2) have "Some nd \<in> set xs"
    by (auto simp add: isNormalizedDiagnostic_def)
  then have "Inr (Some nd) \<in> set (map Inr xs)" by simp
  with xs have "Inr (Some nd) \<in> set (map (normalizeEslintMessage env libs result) (lr_messages result))"
    by (simp add: mapThrowing_Inr_iff)
  then obtain m where "normalizeEslintMessage env libs result m = Inr (Some nd)"
    by auto
  then show ?thesis
    by (auto simp add: normalizeEslintMessage_def Let_def split: if_splits sum.splits)
qed

lemma andStrip_escape_free:
  assumes "\<forall>f. codeFrame = Some f \<longrightarrow> \<not> containsEscape (Some (strip libs f))"
  shows "\<not> containsEscape (andStrip libs codeFrame)"
  using assms by (cases codeFrame) (auto simp add: andStrip_def containsEscape_def)

subsection \<open>filterLogLevel on one record\<close>

text \<open>
  What the single-record branch does, by the level of the record: an unassigned level
  and the level 0 give \<open>null\<close> whatever the allowed set is; any other level gives the
  record exactly when the level is allowed.
\<close>

lemma filterLogLevel_single_unassigned:
  "nd_level d = None \<Longrightarrow> filterLogLevel (One d) level = Null"
  by (simp add: filterLogLevel_def)

lemma filterLogLevel_single_zero:
  "nd_level d = Some 0 \<Longrightarrow> filterLogLevel (One d) level = Null"
  by (simp add: filterLogLevel_def)

lemma filterLogLevel_single_nonzero:
  "nd_level d = Some n \<Longrightarrow> n \<noteq> 0 \<Longrightarrow>
   filterLogLevel (One d) level =
     (if n \<in> set (case level of None \<Rightarrow> defaultLogLevel | Some l \<Rightarrow> l) then Single d else Null)"
  by (simp add: filterLogLevel_def)

text \<open>
  C1. A single record passed to \<open>filterLogLevel\<close> should come back unchanged when its
  level is assigned and allowed, and as \<open>null\<close> otherwise. On the code this fails for the
  level Warning, whose ordinal is 0: the single-record branch tests \<open>!diagnostics.level\<close>,
  which is true of 0, and returns \<open>null\<close> for a lint warning under the default set, which
  allows Warning. The array branch tests \<open>typeof d.level !== 'number'\<close> and keeps the same
  record.
\<close>

theorem filterLogLevel_single_Warning_dropped:
  "nd_level lintWarning = Some DiagnosticLevel_Warning
   \<and> DiagnosticLevel_Warning \<in> set defaultLogLevel
   \<and> filterLogLevel (One lintWarning) None = Null
   \<and> filterLogLevel (Many [lintWarning]) None = Array [lintWarning]"
  by (simp add: filterLogLevel_def lintWarning_def defaultLogLevel_def DiagnosticLevel_Warning_def)

subsection \<open>diagnosticToRuntimeError\<close>

text \<open>
  C2. For canonical diagnostics, one or a sequence, the frame of each runtime payload is
  the \<open>stripedCodeFrame\<close> of its diagnostic and carries no colour escape, provided that
  \<open>strip\<close> leaves no escape in the colour-decorated frame of the diagnostic. The payload
  never takes the colour-decorated \<open>codeFrame\<close>: replacing it by any \<open>cf\<close> leaves the
  payload as it is.
\<close>

theorem runtime_frame_escape_free:
  assumes "\<forall>nd\<in>set nds. canonical env libs nd
             \<and> (\<forall>f. nd_codeFrame nd = Some f \<longrightarrow> \<not> containsEscape (Some (strip libs f)))"
  shows "(\<exists>rs. diagnosticToRuntimeError env (Many nds) = Many rs
            \<and> map rt_frame rs = map nd_stripedCodeFrame nds
            \<and> (\<forall>r\<in>set rs. \<not> containsEscape (rt_frame r)))
         \<and> (\<forall>nd\<in>set nds. \<exists>r. diagnosticToRuntimeError env (One nd) = One r
               \<and> rt_frame r = nd_stripedCodeFrame nd
               \<and> \<not> containsEscape (rt_frame r))
         \<and> diagnosticToRuntimeError env (One (d\<lparr>nd_codeFrame := cf\<rparr>)) =
             diagnosticToRuntimeError env (One d)
         \<and> diagnosticToRuntimeError env (Many (map (\<lambda>x. x\<lparr>nd_codeFrame := cf\<rparr>) nds)) =
             diagnosticToRuntimeError env (Many nds)"
proof -
  have clean: "\<not> containsEscape (nd_stripedCodeFrame nd)" if "nd \<in> set nds" for nd
  proof -
    from that assms have "canonical env libs nd"
      and "\<forall>f. nd_codeFrame nd = Some f \<longrightarrow> \<not> containsEscape (Some (strip libs f))"
      by auto
    then show ?thesis
      by (simp add: canonical_striped andStrip_escape_free)
  qed
  have many: "diagnosticToRuntimeError env (Many nds) = Many (map (toRuntime env) nds)"
    by (simp add: diagnosticToRuntimeError_def)
  have one: "diagnosticToRuntimeError env (One nd) = One (toRuntime env nd)" for nd
    by (simp add: diagnosticToRuntimeError_def)
  have "\<forall>r\<in>set (map (toRuntime env) nds). \<not> containsEscape (rt_frame r)"
    using clean by (auto simp add: toRuntime_frame)
  moreover have "map rt_frame (map (toRuntime env) nds) = map nd_stripedCodeFrame nds"
    by (simp add: toRuntime_frame comp_def)
  moreover have "\<forall>nd\<in>set nds. \<exists>r. diagnosticToRuntimeError env (One nd) = One r
               \<and> rt_frame r = nd_stripedCodeFrame nd
               \<and> \<not> containsEscape (rt_frame r)"
    using clean by (simp add: one toRuntime_frame)
  moreover have "diagnosticToRuntimeError env (One (d\<lparr>nd_codeFrame := cf\<rparr>)) =
             diagnosticToRuntimeError env (One d)"
    by (simp add: one toRuntime_ignores_codeFrame)
  moreover have "diagnosticToRuntimeError env (Many (map (\<lambda>x. x\<lparr>nd_codeFrame := cf\<rparr>) nds)) =
             diagnosticToRuntimeError env (Many nds)"
    by (simp add: diagnosticToRuntimeError_def toRuntime_ignores_codeFrame comp_def)
  ultimately show ?thesis
    using many by simp
qed

text \<open>
  On the two records of a lint result, rendered with colour: both have an escape in
  \<open>codeFrame\<close>, and neither payload has one in its frame.
\<close>

theorem runtime_frame_escape_free_witness:
  "(case normalizeEslintDiagnostic plain_terminal sample_libraries sampleLintResult of
      Inl e \<Rightarrow> False
    | Inr nds \<Rightarrow>
        length nds = 2
        \<and> list_all (\<lambda>nd. containsEscape (nd_codeFrame nd)) nds
        \<and> (case diagnosticToRuntimeError plain_terminal (Many nds) of
             One r \<Rightarrow> False
           | Many rs \<Rightarrow> length rs = 2 \<and> list_all (\<lambda>r. \<not> containsEscape (rt_frame r)) rs))"
proof -
  have "(case normalizeEslintDiagnostic plain_terminal sample_libraries sampleLintResult of
      Inl e \<Rightarrow> False
    | Inr nds \<Rightarrow> length nds = 2 \<and> list_all (\<lambda>nd. containsEscape (nd_codeFrame nd)) nds)"
    by code_simp
  then obtain nds where nds:
      "normalizeEslintDiagnostic plain_terminal sample_libraries sampleLintResult = Inr nds"
    and len: "length nds = 2"
    and coloured: "list_all (\<lambda>nd. containsEscape (nd_codeFrame nd)) nds"
    by (auto split: sum.splits)
  have "\<forall>nd\<in>set nds. canonical plain_terminal sample_libraries nd
          \<and> (\<forall>f. nd_codeFrame nd = Some f \<longrightarrow> \<not> containsEscape (Some (strip sample_libraries f)))"
    using nds
    by (auto intro: canonical.fromEslint
        simp add: containsEscape_def sample_libraries_def stripFrom_no_escape)
  from runtime_frame_escape_free [OF this, where d = lintWarning and cf = None]
  obtain rs where "diagnosticToRuntimeError plain_terminal (Many nds) = Many rs"
    and "map rt_frame rs = map nd_stripedCodeFrame nds"
    and "\<forall>r\<in>set rs. \<not> containsEscape (rt_frame r)"
    by blast
  moreover from this(2) have "length rs = length nds"
    by (metis length_map)
  ultimately show ?thesis
    using nds len coloured by (simp add: list_all_iff)
qed

subsection \<open>diagnosticToTerminalLog\<close>

text \<open>
  Of the four parts only the conclusion is the bare field, so only the conclusion can be
  falsy: an absent or empty conclusion is left out of the join.
\<close>

lemma diagnosticToTerminalLog_conclusion_omitted:
  assumes "\<not> Boolean (nd_conclusion d)" and "EOL env \<noteq> []"
  shows "diagnosticToTerminalLog env d name =
           (String_of (levelLabel env d name) @ '' '' @ String_of (nd_message d)) @ EOL env @
           (fileLabel env @ String_of (nd_id d) @ '':'' @ position env d @ EOL env) @ EOL env @
           (String_of (nd_codeFrame d) @ EOL env)"
  using assms
  by (simp add: diagnosticToTerminalLog_def terminalLogParts_def Boolean_def fileLabel_def)

text \<open>
  The code frame part is \<open>d.codeFrame + os.EOL\<close>: for an undefined \<open>codeFrame\<close> it is the
  text "undefined" and a line end, which is truthy and stays in the report.
\<close>

lemma diagnosticToTerminalLog_codeFrame_part_kept:
  assumes "nd_codeFrame d = None"
  shows "sublist (''undefined'' @ EOL env) (diagnosticToTerminalLog env d name)"
proof -
  let ?p1 = "String_of (levelLabel env d name) @ '' '' @ String_of (nd_message d)"
  let ?p2 = "fileLabel env @ String_of (nd_id d) @ '':'' @ position env d @ EOL env"
  let ?p3 = "''undefined'' @ EOL env"
  have p2: "?p2 \<noteq> []" by (simp add: fileLabel_def)
  show ?thesis
  proof (cases "Boolean (nd_conclusion d)")
    case True
    then obtain c where c: "nd_conclusion d = Some c"
      by (cases "nd_conclusion d") (simp_all add: Boolean_def)
    have "diagnosticToTerminalLog env d name = (?p1 @ EOL env @ ?p2 @ EOL env) @ ?p3 @ (EOL env @ c)"
      using True assms c p2
      by (simp add: diagnosticToTerminalLog_def terminalLogParts_def Boolean_def String_of_def
          fileLabel_def)
    then show ?thesis by (metis sublist_appendI)
  next
    case False
    have "diagnosticToTerminalLog env d name = (?p1 @ EOL env @ ?p2 @ EOL env) @ ?p3 @ []"
      using False assms p2
      by (simp add: diagnosticToTerminalLog_def terminalLogParts_def Boolean_def String_of_def
          fileLabel_def)
    then show ?thesis by (metis sublist_appendI)
  qed
qed

lemma terminalLog_starts_with_first_part:
  "prefix (String_of (levelLabel env d name) @ '' '' @ String_of (nd_message d))
     (diagnosticToTerminalLog env d name)"
  by (simp add: diagnosticToTerminalLog_def terminalLogParts_def Boolean_def join_Cons_prefix)

text \<open>
  C3. The terminal report should leave out each of its four parts that is empty or
  absent, an undefined \<open>codeFrame\<close> for one. On the code this fails: for the diagnostic
  that \<open>normalizeTsDiagnostic\<close> returns for a type-checker diagnostic without a file
  (\<open>codeFrame\<close> undefined, \<open>id\<close> undefined, conclusion empty), the report on a terminal
  without colour has the line "undefined" where the frame would be, after an empty line,
  and "undefined" for the file name. Only the empty conclusion is left out.
\<close>

theorem diagnosticToTerminalLog_undefined_codeFrame_printed:
  "normalizeTsDiagnostic plain_terminal sample_libraries globalTsDiagnostic = Inr globalDiagnostic
   \<and> nd_codeFrame globalDiagnostic = None
   \<and> nd_conclusion globalDiagnostic = Some []
   \<and> diagnosticToTerminalLog plain_terminal globalDiagnostic (Some ''TypeScript'')
     = '' ERROR(TypeScript)  Unknown compiler option'' @ [CHR 0x0A] @
       '' FILE  undefined:'' @ [CHR 0x0A] @ [CHR 0x0A] @
       ''undefined'' @ [CHR 0x0A]"
  by code_simp

subsection \<open>normalizeTsDiagnostic\<close>

text \<open>
  C4, as claimed: a category outside the known mapping would give the level Error. It does
  not: a type-checker diagnostic of category 7, which is none of the four levels,
  is normalized to the level 7.
\<close>

theorem normalizeTsDiagnostic_unmapped_category_counterexample:
  "ts_category uncategorizedTsDiagnostic \<notin> set defaultLogLevel
   \<and> normalizeTsDiagnostic plain_terminal sample_libraries uncategorizedTsDiagnostic
       = Inr (globalDiagnostic\<lparr>nd_level := Some 7\<rparr>)
   \<and> Some 7 \<noteq> Some DiagnosticLevel_Error"
  by (simp add: normalizeTsDiagnostic_def tsCodeFrame_def tsLoc_def Let_def
      uncategorizedTsDiagnostic_def globalTsDiagnostic_def globalDiagnostic_def
      sample_libraries_def plain_terminal_def andStrip_def
      defaultLogLevel_def DiagnosticLevel_Warning_def DiagnosticLevel_Error_def
      DiagnosticLevel_Suggestion_def DiagnosticLevel_Message_def)

text \<open>
  C4, amended: \<open>normalizeTsDiagnostic\<close> casts the numeric category to the level. Whenever
  it returns, the level of the canonical diagnostic is the raw category itself, whatever
  its value: a category outside the known mapping passes through unchanged, and no
  default is applied. It returns unless the rendering of the frame throws, and it throws
  only then; for a diagnostic without a location no frame is rendered.
\<close>

theorem normalizeTsDiagnostic_level_is_category:
  "(case tsCodeFrame env libs d of
      Inl e \<Rightarrow> normalizeTsDiagnostic env libs d = Inl e
    | Inr codeFrame \<Rightarrow>
        (\<exists>nd. normalizeTsDiagnostic env libs d = Inr nd \<and> nd_level nd = Some (ts_category d)))
   \<and> (tsLoc d = None \<longrightarrow>
        (\<exists>nd. normalizeTsDiagnostic env libs d = Inr nd \<and> nd_level nd = Some (ts_category d)))"
  by (auto simp add: normalizeTsDiagnostic_def tsCodeFrame_def Let_def split: sum.splits)

text \<open>On the diagnostic without a file and on a diagnostic inside a file.\<close>

theorem normalizeTsDiagnostic_level_is_category_witness:
  "tsLoc globalTsDiagnostic = None
   \<and> (\<exists>nd. normalizeTsDiagnostic plain_terminal sample_libraries globalTsDiagnostic = Inr nd
         \<and> nd_level nd = Some 1)
   \<and> tsLoc locatedTsDiagnostic =
       Some \<lparr>loc_start = \<lparr>pos_line = 1, pos_column = Some 5\<rparr>,
             loc_end = Some \<lparr>pos_line = 1, pos_column = Some 6\<rparr>\<rparr>
   \<and> (\<exists>nd. normalizeTsDiagnostic plain_terminal sample_libraries locatedTsDiagnostic = Inr nd
         \<and> nd_level nd = Some 1)"
proof -
  have none: "tsLoc globalTsDiagnostic = None"
    by (simp add: tsLoc_def globalTsDiagnostic_def)
  have some: "tsLoc locatedTsDiagnostic =
       Some \<lparr>loc_start = \<lparr>pos_line = 1, pos_column = Some 5\<rparr>,
             loc_end = Some \<lparr>pos_line = 1, pos_column = Some 6\<rparr>\<rparr>"
    by (simp add: tsLoc_def locatedTsDiagnostic_def tsLocationToBabelLocation_def)
  have frame: "\<exists>f. tsCodeFrame plain_terminal sample_libraries locatedTsDiagnostic = Inr f"
    by (simp add: tsCodeFrame_def tsLoc_def locatedTsDiagnostic_def tsLocationToBabelLocation_def
        createFrame_def sample_libraries_def sample_codeFrameColumns_def readsMissingLine_def)
  show ?thesis
    using normalizeTsDiagnostic_level_is_category [of plain_terminal sample_libraries globalTsDiagnostic]
      normalizeTsDiagnostic_level_is_category [of plain_terminal sample_libraries locatedTsDiagnostic]
      none some frame
    by (auto simp add: globalTsDiagnostic_def locatedTsDiagnostic_def)
qed

subsection \<open>normalizeEslintDiagnostic\<close>




subsection \<open>normalizeLspDiagnostic\<close>



subsection \<open>Location conversions\<close>

text \<open>
  C7. Both location conversions, \<open>tsLocationToBabelLocation\<close> and \<open>lspRange2Location\<close>,
  turn a 0-based start/end pair of \<open>{line, character}\<close> into the location whose start and
  end have \<open>line + 1\<close> and \<open>character + 1\<close>, each component on its own, for every
  integer: zero and negative inputs take the same \<open>+ 1\<close>, nothing is rounded or clamped.
\<close>

theorem location_conversions_add_one:
  "tsLocationToBabelLocation
     \<lparr>range_start = \<lparr>lc_line = sl, lc_character = sc\<rparr>,
      range_end = \<lparr>lc_line = el, lc_character = ec\<rparr>\<rparr>
   = \<lparr>loc_start = \<lparr>pos_line = sl + 1, pos_column = Some (sc + 1)\<rparr>,
      loc_end = Some \<lparr>pos_line = el + 1, pos_column = Some (ec + 1)\<rparr>\<rparr>
   \<and> lspRange2Location
     \<lparr>range_start = \<lparr>lc_line = sl, lc_character = sc\<rparr>,
      range_end = \<lparr>lc_line = el, lc_character = ec\<rparr>\<rparr>
   = \<lparr>loc_start = \<lparr>pos_line = sl + 1, pos_column = Some (sc + 1)\<rparr>,
      loc_end = Some \<lparr>pos_line = el + 1, pos_column = Some (ec + 1)\<rparr>\<rparr>"
  by (simp add: tsLocationToBabelLocation_def lspRange2Location_def)

text \<open>On the pair of the repository's test, and on a pair with zero and negative parts.\<close>

theorem location_conversions_add_one_witness:
  "tsLocationToBabelLocation
     \<lparr>range_start = \<lparr>lc_line = 1, lc_character = 2\<rparr>,
      range_end = \<lparr>lc_line = 3, lc_character = 4\<rparr>\<rparr>
   = \<lparr>loc_start = \<lparr>pos_line = 2, pos_column = Some 3\<rparr>,
      loc_end = Some \<lparr>pos_line = 4, pos_column = Some 5\<rparr>\<rparr>
   \<and> lspRange2Location
     \<lparr>range_start = \<lparr>lc_line = 0, lc_character = 0\<rparr>,
      range_end = \<lparr>lc_line = - 1, lc_character = - 5\<rparr>\<rparr>
   = \<lparr>loc_start = \<lparr>pos_line = 1, pos_column = Some 1\<rparr>,
      loc_end = Some \<lparr>pos_line = 0, pos_column = Some (- 4)\<rparr>\<rparr>"
  using location_conversions_add_one [of 1 2 3 4] location_conversions_add_one [of 0 0 "- 1" "- 5"]
  by simp

subsection \<open>composeCheckerSummary\<close>

text \<open>
  C8. \<open>composeCheckerSummary\<close> hands chalk the text \<open>"[checkerName] Found N error(s) and M
  warning(s)"\<close>, where each noun takes its plural \<open>s\<close> exactly when its count is greater
  than 1 (0 and 1 are singular), under the colour red, yellow or green. The result
  contains that text whenever chalk keeps the text it styles.
\<close>

theorem composeCheckerSummary_text:
  "composeCheckerSummary env checkerName errorCount warningCount =
     chalk env [if errorCount > 0 then red else if warningCount > 0 then yellow else green]
       (''['' @ checkerName @ ''] '' @
        ''Found '' @ Number_toString errorCount @ '' error'' @ (if errorCount > 1 then ''s'' else []) @
        '' and '' @ Number_toString warningCount @ '' warning'' @ (if warningCount > 1 then ''s'' else []))
   \<and> ((\<forall>c s. sublist s (chalk env [c] s)) \<longrightarrow>
        sublist
          (''['' @ checkerName @ ''] '' @
           ''Found '' @ Number_toString errorCount @ '' error'' @ (if errorCount > 1 then ''s'' else []) @
           '' and '' @ Number_toString warningCount @ '' warning'' @ (if warningCount > 1 then ''s'' else []))
          (composeCheckerSummary env checkerName errorCount warningCount))"
  by (simp add: composeCheckerSummary_def wrapCheckerSummary_def Let_def)

text \<open>
  The three summaries of the specification on a terminal without colour, and one on a
  terminal with colour.
\<close>

theorem composeCheckerSummary_text_witness:
  "composeCheckerSummary plain_terminal ''X'' 2 0 = ''[X] Found 2 errors and 0 warning''
   \<and> composeCheckerSummary plain_terminal ''X'' 1 1 = ''[X] Found 1 error and 1 warning''
   \<and> composeCheckerSummary plain_terminal ''X'' 0 0 = ''[X] Found 0 error and 0 warning''
   \<and> (\<forall>c s. sublist s (chalk ansi_terminal [c] s))
   \<and> sublist ''[X] Found 12 errors and 1 warning'' (composeCheckerSummary ansi_terminal ''X'' 12 1)"
proof -
  have num: "Number_toString 0 = ''0''" "Number_toString 1 = ''1''" "Number_toString 2 = ''2''"
    "Number_toString 12 = ''12''"
    by (simp_all add: Number_toString_def nat_digits.simps digit_char_def)
  have keeps: "\<forall>c s. sublist s (chalk ansi_terminal [c] s)"
    by (simp add: ansi_terminal_chalk_keeps_text)
  show ?thesis
    using composeCheckerSummary_text [of plain_terminal "''X''" 2 0]
      composeCheckerSummary_text [of plain_terminal "''X''" 1 1]
      composeCheckerSummary_text [of plain_terminal "''X''" 0 0]
      composeCheckerSummary_text [of ansi_terminal "''X''" 12 1] keeps
    by (simp add: num plain_terminal_def)
qed

subsection \<open>The location of a lint message\<close>

text \<open>
  C9. The location that \<open>normalizeEslintDiagnostic\<close> builds for a lint message has
  \<open>start.line\<close> and \<open>start.column\<close> as the raw \<open>line\<close> and \<open>column\<close>, and its
  \<open>end.line\<close> is 0 when \<open>endLine\<close> is absent (not the start line). It is the location
  handed to the frame renderer. When the frame of each message of severity other than 0
  can be rendered, the call returns and the records carry these locations in order (the
  raw \<open>endLine\<close> where there is one); when the renderer throws at such a message, the
  call throws.
\<close>

theorem normalizeEslintDiagnostic_location:
  "(lm_endLine m = None \<longrightarrow>
      eslintLoc m =
        \<lparr>loc_start = \<lparr>pos_line = lm_line m, pos_column = Some (lm_column m)\<rparr>,
         loc_end = Some \<lparr>pos_line = 0, pos_column = lm_endColumn m\<rparr>\<rparr>)
   \<and> ((\<forall>m\<in>set (lr_messages r). lm_severity m \<noteq> 0 \<longrightarrow> (\<exists>f. eslintCodeFrame env libs r m = Inr f)) \<longrightarrow>
        (\<exists>ds. normalizeEslintDiagnostic env libs r = Inr ds
           \<and> map nd_loc ds =
               map (\<lambda>m. Some \<lparr>loc_start = \<lparr>pos_line = lm_line m, pos_column = Some (lm_column m)\<rparr>,
                               loc_end = Some \<lparr>pos_line = (case lm_endLine m of None \<Rightarrow> 0 | Some n \<Rightarrow> n),
                                                pos_column = lm_endColumn m\<rparr>\<rparr>)
                 (filter (\<lambda>m. lm_severity m \<noteq> 0) (lr_messages r))))
   \<and> ((\<exists>m\<in>set (lr_messages r). lm_severity m \<noteq> 0 \<and> (\<exists>e. eslintCodeFrame env libs r m = Inl e)) \<longrightarrow>
        (\<exists>e. normalizeEslintDiagnostic env libs r = Inl e))"
proof -
  have loc: "eslintLoc x =
      \<lparr>loc_start = \<lparr>pos_line = lm_line x, pos_column = Some (lm_column x)\<rparr>,
       loc_end = Some \<lparr>pos_line = (case lm_endLine x of None \<Rightarrow> 0 | Some n \<Rightarrow> n),
                        pos_column = lm_endColumn x\<rparr>\<rparr>" for x
    by (simp add: eslintLoc_def cong: option.case_cong)
  have "\<exists>ds. normalizeEslintDiagnostic env libs r = Inr ds
           \<and> map nd_loc ds =
               map (\<lambda>m. Some \<lparr>loc_start = \<lparr>pos_line = lm_line m, pos_column = Some (lm_column m)\<rparr>,
                               loc_end = Some \<lparr>pos_line = (case lm_endLine m of None \<Rightarrow> 0 | Some n \<Rightarrow> n),
                                                pos_column = lm_endColumn m\<rparr>\<rparr>)
                 (filter (\<lambda>m. lm_severity m \<noteq> 0) (lr_messages r))"
    if "\<forall>m\<in>set (lr_messages r). lm_severity m \<noteq> 0 \<longrightarrow> (\<exists>f. eslintCodeFrame env libs r m = Inr f)"
    using normalizeEslintDiagnostic_returns [OF that] by (auto simp add: loc)
  moreover have "\<exists>e. normalizeEslintDiagnostic env libs r = Inl e"
    if "\<exists>m\<in>set (lr_messages r). lm_severity m \<noteq> 0 \<and> (\<exists>e. eslintCodeFrame env libs r m = Inl e)"
    using that normalizeEslintDiagnostic_throws by blast
  moreover have "lm_endLine m = None \<longrightarrow>
      eslintLoc m =
        \<lparr>loc_start = \<lparr>pos_line = lm_line m, pos_column = Some (lm_column m)\<rparr>,
         loc_end = Some \<lparr>pos_line = 0, pos_column = lm_endColumn m\<rparr>\<rparr>"
    by (simp add: loc)
  ultimately show ?thesis by blast
qed

text \<open>
  On a result whose first message, on line 1, has no \<open>endLine\<close>: its end line is 0. On the
  result whose third message lies outside its source the call throws.
\<close>

theorem normalizeEslintDiagnostic_location_witness:
  "map lm_endLine (filter (\<lambda>m. lm_severity m \<noteq> 0) (lr_messages sampleLintResult)) = [None, Some 2]
   \<and> eslintLoc (hd (lr_messages sampleLintResult)) =
       \<lparr>loc_start = \<lparr>pos_line = 1, pos_column = Some 9\<rparr>,
        loc_end = Some \<lparr>pos_line = 0, pos_column = None\<rparr>\<rparr>
   \<and> (\<exists>ds. normalizeEslintDiagnostic plain_terminal sample_libraries sampleLintResult = Inr ds
         \<and> map nd_loc ds =
             [Some \<lparr>loc_start = \<lparr>pos_line = 1, pos_column = Some 9\<rparr>,
                    loc_end = Some \<lparr>pos_line = 0, pos_column = None\<rparr>\<rparr>,
              Some \<lparr>loc_start = \<lparr>pos_line = 2, pos_column = Some 1\<rparr>,
                    loc_end = Some \<lparr>pos_line = 2, pos_column = Some 9\<rparr>\<rparr>])
   \<and> (\<exists>e. normalizeEslintDiagnostic plain_terminal sample_libraries overflowingLintResult = Inl e)"
proof -
  have renders: "\<forall>m\<in>set (lr_messages sampleLintResult). lm_severity m \<noteq> 0 \<longrightarrow>
      (\<exists>f. eslintCodeFrame plain_terminal sample_libraries sampleLintResult m = Inr f)"
    by (simp add: sampleLintResult_def eslintCodeFrame_def eslintLoc_def createFrame_def
        sample_libraries_def sample_codeFrameColumns_def readsMissingLine_def)
  have throws: "\<exists>m\<in>set (lr_messages overflowingLintResult). lm_severity m \<noteq> 0 \<and>
      (\<exists>e. eslintCodeFrame plain_terminal sample_libraries overflowingLintResult m = Inl e)"
    by (simp add: overflowingLintResult_def eslintCodeFrame_def eslintLoc_def createFrame_def
        sample_libraries_def sample_codeFrameColumns_def readsMissingLine_def)
  have first: "lm_endLine (hd (lr_messages sampleLintResult)) = None"
    by (simp add: sampleLintResult_def)
  show ?thesis
    using normalizeEslintDiagnostic_location
        [of "hd (lr_messages sampleLintResult)" sampleLintResult plain_terminal sample_libraries]
      normalizeEslintDiagnostic_location
        [of "hd (lr_messages sampleLintResult)" overflowingLintResult plain_terminal sample_libraries]
      renders throws first
    by (simp add: sampleLintResult_def)
qed

subsection \<open>The label of an unclassified diagnostic\<close>

text \<open>
  C10. For a diagnostic whose level is undefined, \<open>diagnosticToTerminalLog\<close> returns the
  report it returns for the same diagnostic at the level Error, and that report starts
  with the Error label, \<open>" ERROR"\<close> with the checker's name on bright red, before the
  message. The function is total: nothing in it can fail.
\<close>

theorem diagnosticToTerminalLog_unclassified:
  assumes "nd_level d = None"
  shows "diagnosticToTerminalLog env d name =
           diagnosticToTerminalLog env (d\<lparr>nd_level := Some DiagnosticLevel_Error\<rparr>) name
         \<and> prefix
             (chalk env [bold, rgb 0 0 0, bgRedBright] ('' ERROR'' @ nameInLabel name @ '' '') @
              '' '' @ String_of (nd_message d))
             (diagnosticToTerminalLog env d name)"
proof -
  have label: "levelLabel env d name =
      Some (chalk env [bold, rgb 0 0 0, bgRedBright] ('' ERROR'' @ nameInLabel name @ '' ''))"
    using assms
    by (simp add: levelLabel_def labelMap_def boldBlack_def DiagnosticLevel_Error_def
        DiagnosticLevel_Warning_def DiagnosticLevel_Suggestion_def DiagnosticLevel_Message_def)
  have same: "levelLabel env (d\<lparr>nd_level := Some DiagnosticLevel_Error\<rparr>) name = levelLabel env d name"
    using assms by (simp add: levelLabel_def)
  have "terminalLogParts env (d\<lparr>nd_level := Some DiagnosticLevel_Error\<rparr>) name =
        terminalLogParts env d name"
    by (simp add: terminalLogParts_def same position_def)
  then have "diagnosticToTerminalLog env d name =
      diagnosticToTerminalLog env (d\<lparr>nd_level := Some DiagnosticLevel_Error\<rparr>) name"
    by (simp add: diagnosticToTerminalLog_def)
  moreover have "prefix
      (chalk env [bold, rgb 0 0 0, bgRedBright] ('' ERROR'' @ nameInLabel name @ '' '') @
       '' '' @ String_of (nd_message d))
      (diagnosticToTerminalLog env d name)"
    using terminalLog_starts_with_first_part [of env d name] by (simp add: label String_of_def)
  ultimately show ?thesis by simp
qed

text \<open>On an unclassified record, without colour and with colour.\<close>

theorem diagnosticToTerminalLog_unclassified_witness:
  "nd_level unclassifiedDiagnostic = None
   \<and> diagnosticToTerminalLog plain_terminal unclassifiedDiagnostic (Some ''VLS'') =
       '' ERROR(VLS)  something happened'' @ [CHR 0x0A] @
       '' FILE  /src/main.ts:'' @ [CHR 0x0A] @ [CHR 0x0A] @
       ''  frame'' @ [CHR 0x0A]
   \<and> prefix (sgr ''1'' @ sgr ''38;2;0;0;0'' @ sgr ''101'' @ '' ERROR(VLS) '')
       (diagnosticToTerminalLog ansi_terminal unclassifiedDiagnostic (Some ''VLS''))"
proof -
  have none: "nd_level unclassifiedDiagnostic = None"
    by (simp add: unclassifiedDiagnostic_def)
  have plain: "diagnosticToTerminalLog plain_terminal
        (unclassifiedDiagnostic\<lparr>nd_level := Some DiagnosticLevel_Error\<rparr>) (Some ''VLS'') =
       '' ERROR(VLS)  something happened'' @ [CHR 0x0A] @
       '' FILE  /src/main.ts:'' @ [CHR 0x0A] @ [CHR 0x0A] @
       ''  frame'' @ [CHR 0x0A]"
    by code_simp
  have digits: "nat_digits 0 = ''0''"
    by (simp add: nat_digits.simps digit_char_def)
  have label: "chalk ansi_terminal [bold, rgb 0 0 0, bgRedBright]
        ('' ERROR'' @ nameInLabel (Some ''VLS'') @ '' '') @
        '' '' @ String_of (nd_message unclassifiedDiagnostic) =
      (sgr ''1'' @ sgr ''38;2;0;0;0'' @ sgr ''101'' @ '' ERROR(VLS) '') @
      (sgr ''49'' @ sgr ''39'' @ sgr ''22'' @ '' '' @ String_of (nd_message unclassifiedDiagnostic))"
    by (simp add: ansi_terminal_def nameInLabel_def digits)
  have "prefix (sgr ''1'' @ sgr ''38;2;0;0;0'' @ sgr ''101'' @ '' ERROR(VLS) '')
       (diagnosticToTerminalLog ansi_terminal unclassifiedDiagnostic (Some ''VLS''))"
    using diagnosticToTerminalLog_unclassified [OF none, of ansi_terminal "Some ''VLS''"]
    unfolding label by (blast dest: append_prefixD)
  then show ?thesis
    using diagnosticToTerminalLog_unclassified [OF none, of plain_terminal "Some ''VLS''"]
    by (simp add: none plain)
qed

end
